theory Spec2Isabelle
  imports Main
begin

section \<open>Editor store (\<open>useEditorStore\<close>)\<close>

text \<open>
  The store keeps one \<open>FileContent\<close> per file path in the object \<open>fileContents\<close>,
  a \<open>Record<string, FileContent>\<close> that starts as \<open>{}\<close>. Its own properties are a
  map from paths to buffers. JavaScript strings are compared by value, so \<open>!==\<close> on
  two strings is HOL's \<open>\<noteq>\<close>.

  By its declared type a buffer's \<open>content\<close> and \<open>originalContent\<close> are strings. At
  run time \<open>markFileSaved\<close> can store a buffer in which both are \<open>undefined\<close> (see
  below), so the two fields are of type \<open>string option\<close>, with \<open>None\<close> for
  \<open>undefined\<close>.
\<close>

record CompileError =
  file_ce :: string
  line_ce :: "int option"
  message_ce :: string

record FileContent =
  content :: "string option"
  originalContent :: "string option"
  isDirty :: bool

record EditorState =
  isCompiling :: bool
  isSaving :: bool
  pdfUrl :: "string option"
  compileErrors :: "CompileError list"
  compileWarnings :: "CompileError list"
  fileContents :: "string \<rightharpoonup> FileContent"

definition initial_EditorState :: EditorState where
  "initial_EditorState =
     \<lparr>isCompiling = False, isSaving = False, pdfUrl = None,
      compileErrors = [], compileWarnings = [], fileContents = Map.empty\<rparr>"

definition setSaving :: "bool \<Rightarrow> EditorState \<Rightarrow> EditorState" where
  "setSaving b state = state\<lparr>isSaving := b\<rparr>"

text \<open>
  The read \<open>state.fileContents[filePath]\<close>. \<open>fileContents\<close> is a plain object, so a
  name that is not an own property is looked up in \<open>Object.prototype\<close>: for the names
  of its members the read gives that member (a function, or the prototype object for
  \<open>__proto__\<close>), which is truthy and has none of the fields of a buffer; for every
  other name it gives \<open>undefined\<close>.
\<close>

definition Object_prototype_members :: "string list" where
  "Object_prototype_members =
     [''constructor'', ''hasOwnProperty'', ''isPrototypeOf'', ''propertyIsEnumerable'',
      ''toLocaleString'', ''toString'', ''valueOf'', ''__proto__'',
      ''__defineGetter__'', ''__defineSetter__'', ''__lookupGetter__'', ''__lookupSetter__'']"

datatype property = Own FileContent | Inherited | Missing

definition fileContents_lookup :: "EditorState \<Rightarrow> string \<Rightarrow> property" where
  "fileContents_lookup state filePath =
     (case fileContents state filePath of
        Some b \<Rightarrow> Own b
      | None \<Rightarrow> if filePath \<in> set Object_prototype_members then Inherited else Missing)"

text \<open>
  \<open>setFileContent(filePath, content, isOriginal = false)\<close>: with \<open>isOriginal\<close> the
  buffer is reset to the loaded content; otherwise the content is replaced and the dirty
  flag recomputed against \<open>existing?.originalContent ?? content\<close>, which is \<open>content\<close>
  when there is no buffer, when the read gave an inherited member, and when the buffer's
  \<open>originalContent\<close> is \<open>undefined\<close>.
\<close>

definition setFileContent :: "string \<Rightarrow> string \<Rightarrow> bool \<Rightarrow> EditorState \<Rightarrow> EditorState" where
  "setFileContent filePath c isOriginal state =
     (let existing = fileContents_lookup state filePath in
      if isOriginal then
        state\<lparr>fileContents := (fileContents state)(filePath \<mapsto>
          \<lparr>content = Some c, originalContent = Some c, isDirty = False\<rparr>)\<rparr>
      else
        (let orig = (case existing of
                       Own b \<Rightarrow> (case originalContent b of None \<Rightarrow> c | Some v \<Rightarrow> v)
                     | Inherited \<Rightarrow> c
                     | Missing \<Rightarrow> c) in
         state\<lparr>fileContents := (fileContents state)(filePath \<mapsto>
           \<lparr>content = Some c, originalContent = Some orig, isDirty = (c \<noteq> orig)\<rparr>)\<rparr>))"

text \<open>
  \<open>markFileSaved(filePath)\<close>: \<open>if (!existing) return state\<close>, otherwise the entry
  \<open>{ ...existing, originalContent: existing.content, isDirty: false }\<close> is written. For
  a buffer this sets \<open>originalContent\<close> to \<open>content\<close>. An inherited member passes the
  test as well; it has no enumerable property to spread and no \<open>content\<close>, so the
  entry written for it has no \<open>content\<close>, \<open>originalContent: undefined\<close> and
  \<open>isDirty: false\<close>.
\<close>

definition markFileSaved :: "string \<Rightarrow> EditorState \<Rightarrow> EditorState" where
  "markFileSaved filePath state =
     (case fileContents_lookup state filePath of
        Missing \<Rightarrow> state
      | Own existing \<Rightarrow>
          state\<lparr>fileContents := (fileContents state)(filePath \<mapsto>
            existing\<lparr>originalContent := content existing, isDirty := False\<rparr>)\<rparr>
      | Inherited \<Rightarrow>
          state\<lparr>fileContents := (fileContents state)(filePath \<mapsto>
            \<lparr>content = None, originalContent = None, isDirty = False\<rparr>)\<rparr>)"

text \<open>\<open>fileContents[filePath]?.content\<close> and \<open>fileContents[filePath]?.isDirty ?? false\<close>.\<close>

definition getFileContent :: "EditorState \<Rightarrow> string \<Rightarrow> string option" where
  "getFileContent state filePath =
     (case fileContents_lookup state filePath of
        Own b \<Rightarrow> content b
      | Inherited \<Rightarrow> None
      | Missing \<Rightarrow> None)"

definition isFileDirty :: "EditorState \<Rightarrow> string \<Rightarrow> bool" where
  "isFileDirty state filePath =
     (case fileContents_lookup state filePath of
        Own b \<Rightarrow> isDirty b
      | Inherited \<Rightarrow> False
      | Missing \<Rightarrow> False)"

text \<open>
  The three buffer operations the editing surface performs on the store: a load
  (\<open>setFileContent\<close> with \<open>isOriginal = true\<close>), an edit (\<open>setFileContent\<close> with the
  default \<open>isOriginal = false\<close>) and \<open>markFileSaved\<close>.
\<close>

datatype buffer_op =
  Load string string
  | Edit string string
  | MarkSaved string

fun apply_buffer_op :: "EditorState \<Rightarrow> buffer_op \<Rightarrow> EditorState" where
  "apply_buffer_op s (Load p c) = setFileContent p c True s"
| "apply_buffer_op s (Edit p c) = setFileContent p c False s"
| "apply_buffer_op s (MarkSaved p) = markFileSaved p s"

definition run_buffer_ops :: "buffer_op list \<Rightarrow> EditorState" where
  "run_buffer_ops ops = foldl apply_buffer_op initial_EditorState ops"

text \<open>The dirty flag of the buffer of path \<open>p\<close> agrees with its two contents.\<close>

definition buffer_consistent :: "EditorState \<Rightarrow> string \<Rightarrow> bool" where
  "buffer_consistent s p =
     (case fileContents s p of
        None \<Rightarrow> True
      | Some b \<Rightarrow> isDirty b = (content b \<noteq> originalContent b))"

section \<open>Project store (\<open>useProjectStore\<close>)\<close>

text \<open>
  \<open>openFiles\<close> is the array of open file paths in tab order and \<open>activeFile\<close> is a
  \<open>string | null\<close>. A JavaScript truthiness test on a string is false for \<open>null\<close> and
  for the empty string; both cases are written out below. The writes of \<open>saveState\<close>
  into \<open>localStorage\<close> do not influence the state the store returns and are left out.
\<close>

record File =
  id_File :: string
  name_File :: string
  path :: string
  isFolder :: bool

record Project =
  id_Project :: string
  name_Project :: string
  ownerId :: string
  files :: "File list"

record ProjectState =
  currentProject :: "Project option"
  openFiles :: "string list"
  activeFile :: "string option"

text \<open>
  \<open>setFiles(files)\<close>: without a current project the update is \<open>{ currentProject: null }\<close>,
  which leaves the state as it is. Otherwise the open files are filtered by
  \<open>existingPaths.has\<close> and the active file is kept only when
  \<open>state.activeFile && existingPaths.has(state.activeFile)\<close>.
\<close>

definition setFiles :: "File list \<Rightarrow> ProjectState \<Rightarrow> ProjectState" where
  "setFiles fs state =
     (case currentProject state of
        None \<Rightarrow> state\<lparr>currentProject := None\<rparr>
      | Some proj \<Rightarrow>
          (let existingPaths = set (map path fs);
               validOpenFiles = filter (\<lambda>p. p \<in> existingPaths) (openFiles state);
               validActiveFile =
                 (case activeFile state of
                    None \<Rightarrow> None
                  | Some a \<Rightarrow> if a \<noteq> [] \<and> a \<in> existingPaths then Some a else None)
           in state\<lparr>currentProject := Some (proj\<lparr>files := fs\<rparr>),
                     openFiles := validOpenFiles,
                     activeFile := validActiveFile\<rparr>))"

definition openFile :: "string \<Rightarrow> ProjectState \<Rightarrow> ProjectState" where
  "openFile p state =
     (let newOpenFiles =
            (if p \<in> set (openFiles state) then openFiles state else openFiles state @ [p])
      in state\<lparr>openFiles := newOpenFiles, activeFile := Some p\<rparr>)"

text \<open>
  \<open>closeFile(path)\<close>: the new active file is
  \<open>newOpenFiles[newOpenFiles.length - 1] || null\<close> when the closed path was active; the
  index is out of range for the empty array (\<open>undefined\<close>), and \<open>||\<close> also turns an
  empty string into \<open>null\<close>.
\<close>

definition closeFile :: "string \<Rightarrow> ProjectState \<Rightarrow> ProjectState" where
  "closeFile p state =
     (let newOpenFiles = filter (\<lambda>f. f \<noteq> p) (openFiles state);
          newActiveFile =
            (if activeFile state = Some p then
               (if newOpenFiles = [] then None
                else if last newOpenFiles = [] then None
                else Some (last newOpenFiles))
             else activeFile state)
      in state\<lparr>openFiles := newOpenFiles, activeFile := newActiveFile\<rparr>)"

definition setActiveFile :: "string option \<Rightarrow> ProjectState \<Rightarrow> ProjectState" where
  "setActiveFile p state = state\<lparr>activeFile := p\<rparr>"

text \<open>The session invariant: the active file, when set, is one of the open files.\<close>

definition active_is_open :: "ProjectState \<Rightarrow> bool" where
  "active_is_open state =
     (case activeFile state of None \<Rightarrow> True | Some a \<Rightarrow> a \<in> set (openFiles state))"

section \<open>Restoring the session record (\<open>getStoredState\<close>)\<close>

text \<open>
  \<open>getStoredState(projectId)\<close> reads \<open>localStorage\<close> and parses the entry with
  \<open>JSON.parse\<close>, both inside one \<open>try\<close> whose \<open>catch\<close> ignores every error. The two
  platform functions are parameters of the model: \<open>getItem\<close> gives the stored string,
  \<open>null\<close> (here \<open>None\<close>) for an absent entry, or throws; \<open>JSON_parse\<close> gives the
  parsed record or throws on text that is not JSON.
\<close>

datatype js_error = SyntaxError | SecurityError | RangeError

record StoredState =
  openFiles_stored :: "string list"
  activeFile_stored :: "string option"

definition STORAGE_KEY :: string where
  "STORAGE_KEY = ''openleaf-project-state''"

definition storage_key :: "string \<Rightarrow> string" where
  "storage_key projectId = STORAGE_KEY @ ''-'' @ projectId"

text \<open>
  The body of the \<open>try\<close> block: \<open>Inl\<close> is an exception thrown inside it,
  \<open>Inr (Some v)\<close> is \<open>return JSON.parse(stored)\<close>, and \<open>Inr None\<close> is falling through
  the \<open>if (stored)\<close>, which is false for \<open>null\<close> and for the empty string.
\<close>

definition getStoredState_try ::
  "(string \<Rightarrow> js_error + StoredState) \<Rightarrow> (string \<Rightarrow> js_error + string option) \<Rightarrow> string
     \<Rightarrow> js_error + StoredState option" where
  "getStoredState_try JSON_parse getItem projectId =
     (case getItem (storage_key projectId) of
        Inl err \<Rightarrow> Inl err
      | Inr None \<Rightarrow> Inr None
      | Inr (Some stored) \<Rightarrow>
          (if stored = [] then Inr None
           else (case JSON_parse stored of
                   Inl err \<Rightarrow> Inl err
                 | Inr v \<Rightarrow> Inr (Some v))))"

definition getStoredState ::
  "(string \<Rightarrow> js_error + StoredState) \<Rightarrow> (string \<Rightarrow> js_error + string option) \<Rightarrow> string
     \<Rightarrow> StoredState" where
  "getStoredState JSON_parse getItem projectId =
     (case getStoredState_try JSON_parse getItem projectId of
        Inr (Some v) \<Rightarrow> v
      | Inr None \<Rightarrow> \<lparr>openFiles_stored = [], activeFile_stored = None\<rparr>
      | Inl err \<Rightarrow> \<lparr>openFiles_stored = [], activeFile_stored = None\<rparr>)"

definition setCurrentProject ::
  "(string \<Rightarrow> js_error + StoredState) \<Rightarrow> (string \<Rightarrow> js_error + string option)
     \<Rightarrow> Project option \<Rightarrow> ProjectState \<Rightarrow> ProjectState" where
  "setCurrentProject JSON_parse getItem project state =
     (case project of
        Some proj \<Rightarrow>
          (let stored = getStoredState JSON_parse getItem (id_Project proj)
           in state\<lparr>currentProject := Some proj,
                     openFiles := openFiles_stored stored,
                     activeFile := activeFile_stored stored\<rparr>)
      | None \<Rightarrow> state\<lparr>currentProject := None, openFiles := [], activeFile := None\<rparr>)"

section \<open>Saving the active file (\<open>handleSave\<close> of \<open>MainLayout\<close>)\<close>

text \<open>
  \<open>handleSave\<close> is an \<open>async\<close> function: it runs up to the \<open>await\<close> of
  \<open>filesApi.updateContent(file.id, content)\<close>, other events (edits among them) are
  handled while the request is in flight, and it resumes when the request settles. The
  two halves are two functions. The first returns the request it has issued (\<open>None\<close>
  for each early \<open>return\<close>); the second is given how the request settled.
\<close>

record SaveRequest =
  fileId_req :: string
  content_req :: string
  path_req :: string

datatype save_outcome = Acknowledged | Rejected

definition handleSave_start ::
  "ProjectState \<Rightarrow> EditorState \<Rightarrow> SaveRequest option \<times> EditorState" where
  "handleSave_start pstate estate =
     (case activeFile pstate of
        None \<Rightarrow> (None, estate)
      | Some af \<Rightarrow>
          if af = [] then (None, estate)
          else (case currentProject pstate of
                  None \<Rightarrow> (None, estate)
                | Some proj \<Rightarrow>
                    (case getFileContent estate af of
                       None \<Rightarrow> (None, estate)
                     | Some c \<Rightarrow>
                         (case find (\<lambda>f. path f = af) (files proj) of
                            None \<Rightarrow> (None, estate)
                          | Some f \<Rightarrow>
                              (Some \<lparr>fileId_req = id_File f, content_req = c, path_req = af\<rparr>,
                               setSaving True estate)))))"

text \<open>
  After the \<open>await\<close>: \<open>markFileSaved(activeFile)\<close> when the request succeeded, nothing
  but the log line when it threw, and \<open>setSaving(false)\<close> in the \<open>finally\<close>.
\<close>

definition handleSave_settle :: "save_outcome \<Rightarrow> SaveRequest \<Rightarrow> EditorState \<Rightarrow> EditorState" where
  "handleSave_settle outcome req estate =
     (case outcome of
        Acknowledged \<Rightarrow> setSaving False (markFileSaved (path_req req) estate)
      | Rejected \<Rightarrow> setSaving False estate)"

section \<open>Keyboard shortcuts (\<open>useKeyboardShortcuts\<close>)\<close>

text \<open>
  A \<open>ShortcutConfig\<close> has optional flags \<open>ctrl\<close>, \<open>shift\<close>, \<open>alt\<close>, \<open>meta\<close>; the
  code only tests their truthiness, so an absent flag is \<open>False\<close>. The handler is a
  closure, kept abstract as a value of type \<open>'h\<close>.

  The arrays hold binding objects, and \<open>indexOf\<close> compares objects by identity, not by
  their fields. A binding object is therefore its address paired with its fields. The
  module-level array \<open>shortcuts\<close> is the registry of global bindings, passed
  explicitly.
\<close>

record 'h ShortcutConfig =
  key :: string
  ctrl :: bool
  shift :: bool
  alt :: bool
  meta :: bool
  handler :: 'h
  description :: string

type_synonym 'h binding = "nat \<times> 'h ShortcutConfig"

record KeyboardEvent =
  key_e :: string
  ctrlKey :: bool
  shiftKey :: bool
  altKey :: bool
  metaKey :: bool

text \<open>\<open>registerShortcut\<close> pushes the binding; the function it returns is \<open>unregister\<close>.\<close>

definition registerShortcut :: "'h binding \<Rightarrow> 'h binding list \<Rightarrow> 'h binding list" where
  "registerShortcut config shortcuts = shortcuts @ [config]"

text \<open>
  \<open>shortcuts.indexOf(config)\<close> finds the first entry that is the object \<open>config\<close>
  and \<open>splice(index, 1)\<close> removes it; nothing happens when there is none.
\<close>

fun unregister :: "'h binding \<Rightarrow> 'h binding list \<Rightarrow> 'h binding list" where
  "unregister config [] = []"
| "unregister config (s # shortcuts) =
     (if fst s = fst config then shortcuts else s # unregister config shortcuts)"

text \<open>
  The test of one binding against the event. \<open>String.prototype.toLowerCase\<close> is the
  platform's function and is a parameter here; nothing below depends on which
  characters it folds.
\<close>

definition shortcut_matches ::
  "(string \<Rightarrow> string) \<Rightarrow> 'h ShortcutConfig \<Rightarrow> KeyboardEvent \<Rightarrow> bool" where
  "shortcut_matches toLowerCase shortcut e =
     (let ctrlMatch = (if ctrl shortcut then ctrlKey e \<or> metaKey e
                       else \<not> ctrlKey e \<and> \<not> metaKey e);
          shiftMatch = (if shift shortcut then shiftKey e else \<not> shiftKey e);
          altMatch = (if alt shortcut then altKey e else \<not> altKey e)
      in toLowerCase (key_e e) = toLowerCase (key shortcut)
         \<and> ctrlMatch \<and> shiftMatch \<and> altMatch)"

text \<open>
  The \<open>for\<close> loop of \<open>handleKeyDown\<close>; the result lists the handlers it has invoked, in
  order. The first matching binding has its handler called (after
  \<open>e.preventDefault()\<close>) and the loop \<open>break\<close>s.
\<close>

fun dispatch_loop :: "(string \<Rightarrow> string) \<Rightarrow> 'h binding list \<Rightarrow> KeyboardEvent \<Rightarrow> 'h list" where
  "dispatch_loop toLowerCase [] e = []"
| "dispatch_loop toLowerCase (shortcut # rest) e =
     (if shortcut_matches toLowerCase (snd shortcut) e then [handler (snd shortcut)]
      else dispatch_loop toLowerCase rest e)"

definition handleKeyDown ::
  "(string \<Rightarrow> string) \<Rightarrow> 'h binding list \<Rightarrow> 'h binding list \<Rightarrow> KeyboardEvent \<Rightarrow> 'h list" where
  "handleKeyDown toLowerCase shortcuts localShortcuts e =
     dispatch_loop toLowerCase (shortcuts @ localShortcuts) e"

section \<open>Comment highlights (the highlights effect of \<open>Editor\<close>)\<close>

text \<open>
  The effect that rebuilds the highlights reads the editor's document through two
  members only: \<open>doc.lines\<close> and \<open>doc.line(n)\<close>, which gives the line's description or
  throws when the line does not exist. The document is the widget's object, so both are
  fields of the model's \<open>Doc\<close>, and \<open>line\<close> may fail for any argument.
\<close>

record Comment =
  id_Comment :: string
  project_id :: string
  file_path :: string
  author_id :: string
  author_name :: string
  content_Comment :: string
  line_start :: int
  line_end :: int
  resolved :: bool
  created_at :: string

record Line =
  from_Line :: int
  to_Line :: int
  number :: int
  text_Line :: string

record Doc =
  lines :: int
  line :: "int \<Rightarrow> js_error + Line"

record Highlight =
  from_h :: int
  to_h :: int
  id_h :: string

text \<open>
  The body of the \<open>try\<close> for one comment: both lookups use
  \<open>Math.min(n, doc.lines)\<close>, and an exception of either lookup leaves the block.
\<close>

definition comment_region :: "Doc \<Rightarrow> Comment \<Rightarrow> js_error + Highlight" where
  "comment_region doc c =
     (case line doc (min (line_start c) (lines doc)) of
        Inl err \<Rightarrow> Inl err
      | Inr fromLine \<Rightarrow>
          (case line doc (min (line_end c) (lines doc)) of
             Inl err \<Rightarrow> Inl err
           | Inr toLine \<Rightarrow>
               Inr \<lparr>from_h = from_Line fromLine, to_h = to_Line toLine, id_h = id_Comment c\<rparr>))"

text \<open>
  The loop over \<open>comments\<close>: a resolved comment is skipped by \<open>continue\<close>, a comment
  whose \<open>try\<close> block threw is skipped by the empty \<open>catch\<close>, and every other comment
  pushes its region.
\<close>

fun build_highlights :: "Doc \<Rightarrow> Comment list \<Rightarrow> Highlight list" where
  "build_highlights doc [] = []"
| "build_highlights doc (c # comments) =
     (if resolved c then build_highlights doc comments
      else (case comment_region doc c of
              Inl err \<Rightarrow> build_highlights doc comments
            | Inr h \<Rightarrow> h # build_highlights doc comments))"

text \<open>
  \<open>highlightMark.range(from, to)\<close>, the range of the widget's mark decoration: a mark
  may not be empty, and the call throws a \<open>RangeError\<close> when \<open>from >= to\<close>.
\<close>

definition mark_range :: "int \<Rightarrow> int \<Rightarrow> js_error + int \<times> int" where
  "mark_range from_pos to_pos =
     (if from_pos \<ge> to_pos then Inl RangeError else Inr (from_pos, to_pos))"

text \<open>
  \<open>highlightField.update\<close> on a transaction that carries the \<open>setHighlights\<close> effect:
  \<open>effect.value.map(({ from, to }) => highlightMark.range(from, to))\<close>, element by
  element in order, so that the first throwing element ends the update. The result is
  the list of ranges handed to \<open>Decoration.set\<close>.
\<close>

fun highlightField_update :: "Highlight list \<Rightarrow> js_error + (int \<times> int) list" where
  "highlightField_update [] = Inr []"
| "highlightField_update (h # hs) =
     (case mark_range (from_h h) (to_h h) of
        Inl err \<Rightarrow> Inl err
      | Inr d \<Rightarrow>
          (case highlightField_update hs of
             Inl err \<Rightarrow> Inl err
           | Inr ds \<Rightarrow> Inr (d # ds)))"

text \<open>
  The whole effect. \<open>viewRef.current\<close> is the editor view or \<open>null\<close>, and the view is
  read for its document only. With no view the effect returns at once (\<open>Inr None\<close>).
  Otherwise the list the loop has built is dispatched to the view, which runs
  \<open>highlightField.update\<close> on it; the dispatch stands outside every \<open>try\<close>, so an
  error of the update is an error of the effect.
\<close>

definition highlights_effect ::
  "Doc option \<Rightarrow> Comment list \<Rightarrow> js_error + (int \<times> int) list option" where
  "highlights_effect view comments =
     (case view of
        None \<Rightarrow> Inr None
      | Some doc \<Rightarrow>
          (case highlightField_update (build_highlights doc comments) of
             Inl err \<Rightarrow> Inl err
           | Inr ds \<Rightarrow> Inr (Some ds)))"

section \<open>Properties of the editor store\<close>

lemma buffer_consistent_setFileContent:
  "buffer_consistent s p \<Longrightarrow> buffer_consistent (setFileContent q c orig s) p"
  by (auto simp: buffer_consistent_def setFileContent_def Let_def
      split: option.splits property.splits)

lemma buffer_consistent_markFileSaved:
  "buffer_consistent s p \<Longrightarrow> buffer_consistent (markFileSaved q s) p"
  by (auto simp: buffer_consistent_def markFileSaved_def fileContents_lookup_def
      split: option.splits property.splits if_splits)

lemma buffer_consistent_apply:
  "buffer_consistent s p \<Longrightarrow> buffer_consistent (apply_buffer_op s x) p"
  by (cases x) (simp_all add: buffer_consistent_setFileContent buffer_consistent_markFileSaved)

lemma buffer_consistent_foldl:
  "buffer_consistent s p \<Longrightarrow> buffer_consistent (foldl apply_buffer_op s ops) p"
  by (induction ops arbitrary: s) (simp_all add: buffer_consistent_apply)

lemma buffer_consistent_initial: "buffer_consistent initial_EditorState p"
  by (simp add: buffer_consistent_def initial_EditorState_def)

text \<open>
  C2. Starting from the empty store, after every operation of any sequence of loads,
  edits and \<open>markFileSaved\<close> calls (that is, after every prefix \<open>take n ops\<close> of the
  sequence), the buffer of every path \<open>p\<close> has \<open>isDirty\<close> true if and only if its
  \<open>content\<close> differs from its \<open>originalContent\<close>.
\<close>

theorem dirty_iff_content_differs:
  "case fileContents (run_buffer_ops (take n ops)) p of
     None \<Rightarrow> True
   | Some b \<Rightarrow> isDirty b = (content b \<noteq> originalContent b)"
  using buffer_consistent_foldl [OF buffer_consistent_initial, where p = p and ops = "take n ops"]
  by (simp add: buffer_consistent_def run_buffer_ops_def)

theorem dirty_iff_content_differs_witness:
  "fileContents (run_buffer_ops (take 2 [Load ''main.tex'' ''a'', Edit ''main.tex'' ''b'', MarkSaved ''main.tex''])) ''main.tex''
     = Some \<lparr>content = Some ''b'', originalContent = Some ''a'', isDirty = True\<rparr>
   \<and> fileContents (run_buffer_ops (take 3 [Load ''main.tex'' ''a'', Edit ''main.tex'' ''b'', MarkSaved ''main.tex''])) ''main.tex''
     = Some \<lparr>content = Some ''b'', originalContent = Some ''b'', isDirty = False\<rparr>"
proof -
  have two: "take 2 [Load ''main.tex'' ''a'', Edit ''main.tex'' ''b'', MarkSaved ''main.tex''] = [Load ''main.tex'' ''a'', Edit ''main.tex'' ''b'']"
    by code_simp
  have three: "take 3 [Load ''main.tex'' ''a'', Edit ''main.tex'' ''b'', MarkSaved ''main.tex''] = [Load ''main.tex'' ''a'', Edit ''main.tex'' ''b'', MarkSaved ''main.tex'']"
    by code_simp
  show ?thesis
    using dirty_iff_content_differs [of 2 "[Load ''main.tex'' ''a'', Edit ''main.tex'' ''b'', MarkSaved ''main.tex'']" "''main.tex''"]
    by (simp add: two three run_buffer_ops_def setFileContent_def markFileSaved_def
        fileContents_lookup_def initial_EditorState_def Let_def)
qed

lemma markFileSaved_missing_unchanged:
  "fileContents state filePath = None \<Longrightarrow> filePath \<notin> set Object_prototype_members \<Longrightarrow>
     markFileSaved filePath state = state"
  by (simp add: markFileSaved_def fileContents_lookup_def)

text \<open>
  C10 fails on the code. The empty store has no buffer for the path \<open>constructor\<close>,
  and \<open>getFileContent\<close> says so; but the read inside \<open>markFileSaved\<close> finds the member
  of \<open>Object.prototype\<close> of that name, the early \<open>return state\<close> is not taken, and an
  entry without content is written: the state has changed and a buffer has been
  created. (For a path with no buffer that is not such a name the state is returned
  unchanged, as the lemma before this one shows.)
\<close>

theorem markFileSaved_inherited_name_creates_buffer:
  "fileContents initial_EditorState ''constructor'' = None
   \<and> getFileContent initial_EditorState ''constructor'' = None
   \<and> fileContents (markFileSaved ''constructor'' initial_EditorState) ''constructor''
       = Some \<lparr>content = None, originalContent = None, isDirty = False\<rparr>
   \<and> markFileSaved ''constructor'' initial_EditorState \<noteq> initial_EditorState"
proof -
  have written: "fileContents (markFileSaved ''constructor'' initial_EditorState) ''constructor''
       = Some \<lparr>content = None, originalContent = None, isDirty = False\<rparr>"
    by (simp add: markFileSaved_def fileContents_lookup_def Object_prototype_members_def
        initial_EditorState_def)
  have before: "fileContents initial_EditorState ''constructor'' = None"
    by (simp add: initial_EditorState_def)
  have read: "getFileContent initial_EditorState ''constructor'' = None"
    by (simp add: getFileContent_def fileContents_lookup_def initial_EditorState_def)
  have "markFileSaved ''constructor'' initial_EditorState \<noteq> initial_EditorState"
    using written before by auto
  then show ?thesis
    using written before read by simp
qed

section \<open>Properties of the project store\<close>

text \<open>
  C3 as stated fails: with open files \<open>a.tex, b.tex\<close>, \<open>b.tex\<close> active, and a listing
  that holds only \<open>a.tex\<close>, one open file remains but no file is active.
\<close>

theorem setFiles_active_not_previous:
  "openFiles (setFiles
      [\<lparr>id_File = ''1'', name_File = ''a.tex'', path = ''a.tex'', isFolder = False\<rparr>]
      \<lparr>currentProject = Some \<lparr>id_Project = ''p'', name_Project = ''P'', ownerId = ''u'', files = []\<rparr>,
       openFiles = [''a.tex'', ''b.tex''], activeFile = Some ''b.tex''\<rparr>) = [''a.tex'']
   \<and> activeFile (setFiles
      [\<lparr>id_File = ''1'', name_File = ''a.tex'', path = ''a.tex'', isFolder = False\<rparr>]
      \<lparr>currentProject = Some \<lparr>id_Project = ''p'', name_Project = ''P'', ownerId = ''u'', files = []\<rparr>,
       openFiles = [''a.tex'', ''b.tex''], activeFile = Some ''b.tex''\<rparr>) = None"
  by (simp add: setFiles_def)

text \<open>
  C3, amended. For every \<open>setFiles\<close> call made while a project is current and whose
  file-path set excludes the currently active file, \<open>openFiles\<close> becomes the
  subsequence of its paths that are in the set (the survivors keep their relative order)
  and the resulting \<open>activeFile\<close> is none, whether or not an open file remains.
\<close>

theorem setFiles_prunes_and_clears_active:
  assumes "currentProject state = Some proj"
    and "activeFile state = Some a"
    and "a \<notin> set (map path fs)"
  shows "openFiles (setFiles fs state) = filter (\<lambda>p. p \<in> set (map path fs)) (openFiles state)
         \<and> activeFile (setFiles fs state) = None"
  using assms by (simp add: setFiles_def)

theorem setFiles_prunes_and_clears_active_witness:
  "openFiles (setFiles
      [\<lparr>id_File = ''1'', name_File = ''a.tex'', path = ''a.tex'', isFolder = False\<rparr>,
       \<lparr>id_File = ''3'', name_File = ''c.tex'', path = ''c.tex'', isFolder = False\<rparr>]
      \<lparr>currentProject = Some \<lparr>id_Project = ''p'', name_Project = ''P'', ownerId = ''u'', files = []\<rparr>,
       openFiles = [''c.tex'', ''b.tex'', ''a.tex''], activeFile = Some ''b.tex''\<rparr>)
     = [''c.tex'', ''a.tex'']
   \<and> activeFile (setFiles
      [\<lparr>id_File = ''1'', name_File = ''a.tex'', path = ''a.tex'', isFolder = False\<rparr>,
       \<lparr>id_File = ''3'', name_File = ''c.tex'', path = ''c.tex'', isFolder = False\<rparr>]
      \<lparr>currentProject = Some \<lparr>id_Project = ''p'', name_Project = ''P'', ownerId = ''u'', files = []\<rparr>,
       openFiles = [''c.tex'', ''b.tex'', ''a.tex''], activeFile = Some ''b.tex''\<rparr>) = None"
  using setFiles_prunes_and_clears_active
    [of "\<lparr>currentProject = Some \<lparr>id_Project = ''p'', name_Project = ''P'', ownerId = ''u'', files = []\<rparr>,
          openFiles = [''c.tex'', ''b.tex'', ''a.tex''], activeFile = Some ''b.tex''\<rparr>"
        "\<lparr>id_Project = ''p'', name_Project = ''P'', ownerId = ''u'', files = []\<rparr>"
        "''b.tex''"
        "[\<lparr>id_File = ''1'', name_File = ''a.tex'', path = ''a.tex'', isFolder = False\<rparr>,
          \<lparr>id_File = ''3'', name_File = ''c.tex'', path = ''c.tex'', isFolder = False\<rparr>]"]
  by simp

text \<open>
  C4 as stated fails: with open files \<open>a.tex, b.tex, c.tex\<close> and \<open>b.tex\<close> active,
  closing \<open>b.tex\<close> activates \<open>c.tex\<close>, the last remaining entry, not \<open>a.tex\<close>, the
  entry that preceded \<open>b.tex\<close>.
\<close>

theorem closeFile_activates_last_not_preceding:
  "openFiles (closeFile ''b.tex''
      \<lparr>currentProject = None, openFiles = [''a.tex'', ''b.tex'', ''c.tex''],
       activeFile = Some ''b.tex''\<rparr>) = [''a.tex'', ''c.tex'']
   \<and> activeFile (closeFile ''b.tex''
      \<lparr>currentProject = None, openFiles = [''a.tex'', ''b.tex'', ''c.tex''],
       activeFile = Some ''b.tex''\<rparr>) = Some ''c.tex''
   \<and> activeFile (closeFile ''b.tex''
      \<lparr>currentProject = None, openFiles = [''a.tex'', ''b.tex'', ''c.tex''],
       activeFile = Some ''b.tex''\<rparr>) \<noteq> Some ''a.tex''"
  by (simp add: closeFile_def)

text \<open>
  C4, amended. For every \<open>closeFile(path)\<close> call, \<open>path\<close> is removed from
  \<open>openFiles\<close> and the other entries keep their order. If \<open>path\<close> was the active file
  (and no open path is the empty string), the new active file is the last entry of the
  remaining \<open>openFiles\<close>, or none if \<open>openFiles\<close> is now empty; if \<open>path\<close> was not
  active, \<open>activeFile\<close> is unchanged.
\<close>

theorem closeFile_removes_and_activates_last:
  "p \<notin> set (openFiles (closeFile p state))
   \<and> openFiles (closeFile p state) = filter (\<lambda>f. f \<noteq> p) (openFiles state)
   \<and> (activeFile state = Some p \<longrightarrow> [] \<notin> set (openFiles state) \<longrightarrow>
        activeFile (closeFile p state) =
          (if openFiles (closeFile p state) = [] then None
           else Some (last (openFiles (closeFile p state)))))
   \<and> (activeFile state \<noteq> Some p \<longrightarrow> activeFile (closeFile p state) = activeFile state)"
proof -
  let ?rest = "filter (\<lambda>f. f \<noteq> p) (openFiles state)"
  have open_eq: "openFiles (closeFile p state) = ?rest"
    by (simp add: closeFile_def Let_def)
  have "?rest \<noteq> [] \<Longrightarrow> last ?rest \<in> set (openFiles state)"
    using last_in_set [of ?rest] by auto
  then have nonempty: "[] \<notin> set (openFiles state) \<Longrightarrow> ?rest \<noteq> [] \<Longrightarrow> last ?rest \<noteq> []"
    by metis
  have active: "activeFile state = Some p \<Longrightarrow> [] \<notin> set (openFiles state) \<Longrightarrow>
      activeFile (closeFile p state) = (if ?rest = [] then None else Some (last ?rest))"
    using nonempty by (simp add: closeFile_def Let_def)
  have other: "activeFile state \<noteq> Some p \<Longrightarrow> activeFile (closeFile p state) = activeFile state"
    by (simp add: closeFile_def Let_def)
  show ?thesis
    using open_eq active other by simp
qed

theorem closeFile_removes_and_activates_last_witness:
  "openFiles (closeFile ''b.tex''
      \<lparr>currentProject = None, openFiles = [''a.tex'', ''b.tex'', ''c.tex''],
       activeFile = Some ''b.tex''\<rparr>) = [''a.tex'', ''c.tex'']
   \<and> activeFile (closeFile ''b.tex''
      \<lparr>currentProject = None, openFiles = [''a.tex'', ''b.tex'', ''c.tex''],
       activeFile = Some ''b.tex''\<rparr>) = Some ''c.tex''
   \<and> activeFile (closeFile ''a.tex''
      \<lparr>currentProject = None, openFiles = [''a.tex'', ''b.tex'', ''c.tex''],
       activeFile = Some ''b.tex''\<rparr>) = Some ''b.tex''"
  using closeFile_removes_and_activates_last
    [of "''b.tex''" "\<lparr>currentProject = None, openFiles = [''a.tex'', ''b.tex'', ''c.tex''],
       activeFile = Some ''b.tex''\<rparr>"]
    closeFile_removes_and_activates_last
    [of "''a.tex''" "\<lparr>currentProject = None, openFiles = [''a.tex'', ''b.tex'', ''c.tex''],
       activeFile = Some ''b.tex''\<rparr>"]
  by simp

lemma active_is_open_openFile: "active_is_open (openFile p state)"
  by (simp add: active_is_open_def openFile_def)

lemma active_is_open_closeFile:
  "active_is_open state \<Longrightarrow> active_is_open (closeFile p state)"
  using last_in_set [of "filter (\<lambda>f. f \<noteq> p) (openFiles state)"]
  by (auto simp: active_is_open_def closeFile_def Let_def split: option.splits)

lemma active_is_open_setFiles:
  "active_is_open state \<Longrightarrow> active_is_open (setFiles fs state)"
  by (auto simp: active_is_open_def setFiles_def Let_def split: option.splits)

text \<open>
  C5 as stated fails: \<open>setActiveFile\<close> with a path that is not open is not a no-op, and
  it breaks the invariant.
\<close>

theorem setActiveFile_nonmember_not_noop:
  "activeFile (setActiveFile (Some ''b.tex'')
      \<lparr>currentProject = None, openFiles = [''a.tex''], activeFile = Some ''a.tex''\<rparr>)
     = Some ''b.tex''
   \<and> active_is_open \<lparr>currentProject = None, openFiles = [''a.tex''], activeFile = Some ''a.tex''\<rparr>
   \<and> \<not> active_is_open (setActiveFile (Some ''b.tex'')
      \<lparr>currentProject = None, openFiles = [''a.tex''], activeFile = Some ''a.tex''\<rparr>)"
  by (simp add: setActiveFile_def active_is_open_def)

text \<open>
  C5, amended. \<open>setActiveFile(path)\<close> sets \<open>activeFile\<close> to \<open>path\<close> for every
  \<open>path\<close>, member or not, and leaves \<open>openFiles\<close> unchanged. The invariant that
  \<open>activeFile\<close>, when set, is a member of \<open>openFiles\<close> is preserved by \<open>openFile\<close>,
  \<open>closeFile\<close> and \<open>setFiles\<close>, and by \<open>setActiveFile\<close> exactly when \<open>path\<close> is none
  or a member of \<open>openFiles\<close>.
\<close>

theorem setActiveFile_sets_and_invariant:
  "activeFile (setActiveFile p state) = p
   \<and> openFiles (setActiveFile p state) = openFiles state
   \<and> active_is_open (openFile q state)
   \<and> (active_is_open state \<longrightarrow>
        active_is_open (closeFile q state) \<and> active_is_open (setFiles fs state))
   \<and> (active_is_open (setActiveFile p state) \<longleftrightarrow>
        (case p of None \<Rightarrow> True | Some a \<Rightarrow> a \<in> set (openFiles state)))"
proof -
  have "active_is_open (setActiveFile p state) \<longleftrightarrow>
        (case p of None \<Rightarrow> True | Some a \<Rightarrow> a \<in> set (openFiles state))"
    by (cases p) (simp_all add: active_is_open_def setActiveFile_def)
  then show ?thesis
    by (simp add: setActiveFile_def active_is_open_openFile active_is_open_closeFile
        active_is_open_setFiles)
qed

theorem setActiveFile_sets_and_invariant_witness:
  "active_is_open \<lparr>currentProject = None, openFiles = [''a.tex'', ''b.tex''], activeFile = Some ''a.tex''\<rparr>
   \<and> active_is_open (closeFile ''a.tex''
        \<lparr>currentProject = None, openFiles = [''a.tex'', ''b.tex''], activeFile = Some ''a.tex''\<rparr>)
   \<and> activeFile (setActiveFile (Some ''b.tex'')
        \<lparr>currentProject = None, openFiles = [''a.tex'', ''b.tex''], activeFile = Some ''a.tex''\<rparr>)
       = Some ''b.tex''
   \<and> active_is_open (setActiveFile (Some ''b.tex'')
        \<lparr>currentProject = None, openFiles = [''a.tex'', ''b.tex''], activeFile = Some ''a.tex''\<rparr>)"
proof -
  have h: "active_is_open
      \<lparr>currentProject = None, openFiles = [''a.tex'', ''b.tex''], activeFile = Some ''a.tex''\<rparr>"
    by (simp add: active_is_open_def)
  show ?thesis
    using h setActiveFile_sets_and_invariant
      [where p = "Some ''b.tex''" and q = "''a.tex''" and fs = "[]" and state =
          "\<lparr>currentProject = None, openFiles = [''a.tex'', ''b.tex''], activeFile = Some ''a.tex''\<rparr>"]
    by simp
qed

section \<open>Properties of saving and restoring\<close>

lemma handleSave_start_request:
  assumes "handleSave_start pstate estate = (Some req, estate1)"
  shows "getFileContent estate (path_req req) = Some (content_req req)
         \<and> estate1 = setSaving True estate"
  using assms
  by (auto simp: handleSave_start_def split: option.splits if_splits)

text \<open>
  C1 as stated fails: the buffer of \<open>main.tex\<close> holds \<open>C1\<close> when the save starts, is
  edited to \<open>C2\<close> while the request is in flight, and is marked saved when the
  acknowledgement arrives.
\<close>

theorem stale_save_marks_buffer_saved:
  "fst (handleSave_start
      \<lparr>currentProject = Some \<lparr>id_Project = ''p'', name_Project = ''P'', ownerId = ''u'',
         files = [\<lparr>id_File = ''1'', name_File = ''main.tex'', path = ''main.tex'', isFolder = False\<rparr>]\<rparr>,
       openFiles = [''main.tex''], activeFile = Some ''main.tex''\<rparr>
      (setFileContent ''main.tex'' ''C1'' False
        (setFileContent ''main.tex'' ''C0'' True initial_EditorState)))
     = Some \<lparr>fileId_req = ''1'', content_req = ''C1'', path_req = ''main.tex''\<rparr>
   \<and> fileContents
      (handleSave_settle Acknowledged
        \<lparr>fileId_req = ''1'', content_req = ''C1'', path_req = ''main.tex''\<rparr>
        (setFileContent ''main.tex'' ''C2'' False
          (snd (handleSave_start
            \<lparr>currentProject = Some \<lparr>id_Project = ''p'', name_Project = ''P'', ownerId = ''u'',
               files = [\<lparr>id_File = ''1'', name_File = ''main.tex'', path = ''main.tex'', isFolder = False\<rparr>]\<rparr>,
             openFiles = [''main.tex''], activeFile = Some ''main.tex''\<rparr>
            (setFileContent ''main.tex'' ''C1'' False
              (setFileContent ''main.tex'' ''C0'' True initial_EditorState))))))
      ''main.tex''
     = Some \<lparr>content = Some ''C2'', originalContent = Some ''C2'', isDirty = False\<rparr>"
  by (simp add: handleSave_start_def handleSave_settle_def getFileContent_def setSaving_def
      markFileSaved_def setFileContent_def fileContents_lookup_def initial_EditorState_def Let_def)

text \<open>
  C1, amended. For every save started while the buffer of a path holds content \<open>C1\<close>
  (the content sent with the request), if an edit changes that buffer's content to
  \<open>C2\<close> with \<open>C2 \<noteq> C1\<close> before the acknowledgement arrives, then after the
  acknowledgement is processed the buffer has \<open>content = C2\<close> and is marked saved:
  \<open>originalContent = C2\<close> and \<open>isDirty = false\<close>. The handler calls \<open>markFileSaved\<close>
  without comparing the buffer with the content it sent.
\<close>

theorem save_ack_after_edit_marks_saved:
  assumes "handleSave_start pstate estate = (Some req, estate1)"
    and "content_req req = C1"
    and "C2 \<noteq> C1"
  shows "getFileContent estate (path_req req) = Some C1
         \<and> fileContents
             (handleSave_settle Acknowledged req (setFileContent (path_req req) C2 False estate1))
             (path_req req)
           = Some \<lparr>content = Some C2, originalContent = Some C2, isDirty = False\<rparr>"
proof -
  have "getFileContent estate (path_req req) = Some C1"
    using handleSave_start_request [OF assms(1)] assms(2) by simp
  moreover have "fileContents
      (handleSave_settle Acknowledged req (setFileContent (path_req req) C2 False estate1))
      (path_req req) = Some \<lparr>content = Some C2, originalContent = Some C2, isDirty = False\<rparr>"
    by (simp add: handleSave_settle_def setSaving_def markFileSaved_def setFileContent_def
        fileContents_lookup_def Let_def)
  ultimately show ?thesis by simp
qed

theorem save_ack_after_edit_marks_saved_witness:
  "handleSave_start
      \<lparr>currentProject = Some \<lparr>id_Project = ''p'', name_Project = ''P'', ownerId = ''u'',
         files = [\<lparr>id_File = ''1'', name_File = ''main.tex'', path = ''main.tex'', isFolder = False\<rparr>]\<rparr>,
       openFiles = [''main.tex''], activeFile = Some ''main.tex''\<rparr>
      (setFileContent ''main.tex'' ''C1'' False
        (setFileContent ''main.tex'' ''C0'' True initial_EditorState))
     = (Some \<lparr>fileId_req = ''1'', content_req = ''C1'', path_req = ''main.tex''\<rparr>,
        setSaving True (setFileContent ''main.tex'' ''C1'' False
          (setFileContent ''main.tex'' ''C0'' True initial_EditorState)))
   \<and> ''C2'' \<noteq> ''C1''
   \<and> fileContents
        (handleSave_settle Acknowledged
          \<lparr>fileId_req = ''1'', content_req = ''C1'', path_req = ''main.tex''\<rparr>
          (setFileContent ''main.tex'' ''C2'' False
            (setSaving True (setFileContent ''main.tex'' ''C1'' False
              (setFileContent ''main.tex'' ''C0'' True initial_EditorState)))))
        ''main.tex''
       = Some \<lparr>content = Some ''C2'', originalContent = Some ''C2'', isDirty = False\<rparr>"
proof -
  have start: "handleSave_start
      \<lparr>currentProject = Some \<lparr>id_Project = ''p'', name_Project = ''P'', ownerId = ''u'',
         files = [\<lparr>id_File = ''1'', name_File = ''main.tex'', path = ''main.tex'', isFolder = False\<rparr>]\<rparr>,
       openFiles = [''main.tex''], activeFile = Some ''main.tex''\<rparr>
      (setFileContent ''main.tex'' ''C1'' False
        (setFileContent ''main.tex'' ''C0'' True initial_EditorState))
     = (Some \<lparr>fileId_req = ''1'', content_req = ''C1'', path_req = ''main.tex''\<rparr>,
        setSaving True (setFileContent ''main.tex'' ''C1'' False
          (setFileContent ''main.tex'' ''C0'' True initial_EditorState)))"
    by (simp add: handleSave_start_def getFileContent_def setFileContent_def
        fileContents_lookup_def initial_EditorState_def Let_def)
  have differ: "''C2'' \<noteq> ''C1''" by simp
  show ?thesis
    using start differ
      save_ack_after_edit_marks_saved [OF start _ differ]
    by simp
qed

text \<open>
  C9. For every project identity, if the persisted entry is absent, or is present but
  \<open>JSON.parse\<close> throws on it, \<open>getStoredState\<close> returns the empty record
  (\<open>openFiles = []\<close>, \<open>activeFile = null\<close>). The function returns a record on every
  path: an error thrown inside the \<open>try\<close> is the \<open>Inl\<close> branch, which the \<open>catch\<close>
  turns into the empty record too.
\<close>

theorem getStoredState_absent_or_unparseable:
  assumes "getItem (storage_key projectId) = Inr None
           \<or> (\<exists>stored err. getItem (storage_key projectId) = Inr (Some stored)
                 \<and> JSON_parse stored = Inl err)
           \<or> (\<exists>err. getStoredState_try JSON_parse getItem projectId = Inl err)"
  shows "getStoredState JSON_parse getItem projectId
           = \<lparr>openFiles_stored = [], activeFile_stored = None\<rparr>"
  using assms
  by (auto simp: getStoredState_def getStoredState_try_def split: sum.splits option.splits)

theorem getStoredState_absent_or_unparseable_witness:
  "(\<lambda>s. if s = ''[1,2'' then Inl SyntaxError else Inr \<lparr>openFiles_stored = [''a.tex''], activeFile_stored = None\<rparr>)
      ''[1,2'' = Inl SyntaxError
   \<and> getStoredState
        (\<lambda>s. if s = ''[1,2'' then Inl SyntaxError
              else Inr \<lparr>openFiles_stored = [''a.tex''], activeFile_stored = None\<rparr>)
        (\<lambda>k. if k = ''openleaf-project-state-p1'' then Inr (Some ''[1,2'') else Inr None)
        ''p1''
       = \<lparr>openFiles_stored = [], activeFile_stored = None\<rparr>
   \<and> getStoredState
        (\<lambda>s. if s = ''[1,2'' then Inl SyntaxError
              else Inr \<lparr>openFiles_stored = [''a.tex''], activeFile_stored = None\<rparr>)
        (\<lambda>k. if k = ''openleaf-project-state-p1'' then Inr (Some ''[1,2'') else Inr None)
        ''p2''
       = \<lparr>openFiles_stored = [], activeFile_stored = None\<rparr>"
proof -
  let ?parse = "\<lambda>s. if s = ''[1,2'' then Inl SyntaxError
              else Inr \<lparr>openFiles_stored = [''a.tex''], activeFile_stored = None\<rparr>"
  let ?get = "\<lambda>k. if k = ''openleaf-project-state-p1'' then Inr (Some ''[1,2'') else Inr None"
  have key1: "storage_key ''p1'' = ''openleaf-project-state-p1''"
    by (simp add: storage_key_def STORAGE_KEY_def)
  have key2: "storage_key ''p2'' = ''openleaf-project-state-p2''"
    by (simp add: storage_key_def STORAGE_KEY_def)
  have unparseable: "?get (storage_key ''p1'') = Inr None
      \<or> (\<exists>stored err. ?get (storage_key ''p1'') = Inr (Some stored) \<and> ?parse stored = Inl err)
      \<or> (\<exists>err. getStoredState_try ?parse ?get ''p1'' = Inl err)"
    by (simp add: key1)
  have absent: "?get (storage_key ''p2'') = Inr None
      \<or> (\<exists>stored err. ?get (storage_key ''p2'') = Inr (Some stored) \<and> ?parse stored = Inl err)
      \<or> (\<exists>err. getStoredState_try ?parse ?get ''p2'' = Inl err)"
    by (simp add: key2)
  show ?thesis
    using getStoredState_absent_or_unparseable [OF unparseable]
      getStoredState_absent_or_unparseable [OF absent]
    by simp
qed

section \<open>Properties of the shortcut registry\<close>

lemma dispatch_loop_find:
  "dispatch_loop lower shortcuts e =
     (case find (\<lambda>s. shortcut_matches lower (snd s) e) shortcuts of
        None \<Rightarrow> []
      | Some s \<Rightarrow> [handler (snd s)])"
  by (induction shortcuts) simp_all

lemma dispatch_loop_no_match:
  "\<forall>s \<in> set shortcuts. \<not> shortcut_matches lower (snd s) e \<Longrightarrow>
     dispatch_loop lower (shortcuts @ rest) e = dispatch_loop lower rest e"
  by (induction shortcuts) simp_all

lemma dispatch_loop_global_first:
  "\<exists>s \<in> set shortcuts. shortcut_matches lower (snd s) e \<Longrightarrow>
     dispatch_loop lower (shortcuts @ rest) e = dispatch_loop lower shortcuts e"
  by (induction shortcuts) auto

lemma unregister_appended:
  "fst config \<notin> fst ` set shortcuts \<Longrightarrow>
     unregister config (shortcuts @ config # rest) = shortcuts @ rest"
  by (induction shortcuts) auto






text \<open>
  C8. For every key event, every registry of global bindings and every list of
  call-scoped bindings, the dispatch walks the global bindings and then the call-scoped
  ones in registration order and invokes the handler of the first matching binding and
  no other (none when no binding matches); a matching global binding wins whatever the
  call-scoped bindings are. When two bindings with the same key and modifiers are
  registered, the first of them an object not yet in the registry, and no earlier
  binding of the registry matches the event, only the handler of the first-registered
  fires; after the first is unregistered, the second fires.
\<close>

theorem dispatch_first_match_wins:
  "handleKeyDown toLowerCase shortcuts localShortcuts e =
     (case find (\<lambda>s. shortcut_matches toLowerCase (snd s) e) (shortcuts @ localShortcuts) of
        None \<Rightarrow> []
      | Some s \<Rightarrow> [handler (snd s)])
   \<and> ((\<exists>s \<in> set shortcuts. shortcut_matches toLowerCase (snd s) e) \<longrightarrow>
        handleKeyDown toLowerCase shortcuts localShortcuts e
          = handleKeyDown toLowerCase shortcuts [] e)
   \<and> ((\<forall>s \<in> set shortcuts. \<not> shortcut_matches toLowerCase (snd s) e)
        \<and> fst earlier \<notin> fst ` set shortcuts
        \<and> shortcut_matches toLowerCase (snd earlier) e
        \<and> key (snd later) = key (snd earlier) \<and> ctrl (snd later) = ctrl (snd earlier)
        \<and> shift (snd later) = shift (snd earlier) \<and> alt (snd later) = alt (snd earlier)
        \<and> meta (snd later) = meta (snd earlier) \<longrightarrow>
        handleKeyDown toLowerCase
            (registerShortcut later (registerShortcut earlier shortcuts)) localShortcuts e
          = [handler (snd earlier)]
        \<and> handleKeyDown toLowerCase
            (unregister earlier (registerShortcut later (registerShortcut earlier shortcuts)))
            localShortcuts e
          = [handler (snd later)])"
proof -
  have first: "handleKeyDown toLowerCase shortcuts localShortcuts e =
     (case find (\<lambda>s. shortcut_matches toLowerCase (snd s) e) (shortcuts @ localShortcuts) of
        None \<Rightarrow> [] | Some s \<Rightarrow> [handler (snd s)])"
    by (simp only: handleKeyDown_def dispatch_loop_find)
  have global: "(\<exists>s \<in> set shortcuts. shortcut_matches toLowerCase (snd s) e) \<longrightarrow>
        handleKeyDown toLowerCase shortcuts localShortcuts e
          = handleKeyDown toLowerCase shortcuts [] e"
    by (simp add: handleKeyDown_def dispatch_loop_global_first)
  have two: "handleKeyDown toLowerCase
            (registerShortcut later (registerShortcut earlier shortcuts)) localShortcuts e
          = [handler (snd earlier)]
        \<and> handleKeyDown toLowerCase
            (unregister earlier (registerShortcut later (registerShortcut earlier shortcuts)))
            localShortcuts e
          = [handler (snd later)]"
    if none: "\<forall>s \<in> set shortcuts. \<not> shortcut_matches toLowerCase (snd s) e"
      and fresh: "fst earlier \<notin> fst ` set shortcuts"
      and m_earlier: "shortcut_matches toLowerCase (snd earlier) e"
      and same: "key (snd later) = key (snd earlier)" "ctrl (snd later) = ctrl (snd earlier)"
        "shift (snd later) = shift (snd earlier)" "alt (snd later) = alt (snd earlier)"
  proof -
    have m_later: "shortcut_matches toLowerCase (snd later) e"
      using m_earlier same by (simp add: shortcut_matches_def)
    have removed: "unregister earlier (registerShortcut later (registerShortcut earlier shortcuts))
        = shortcuts @ [later]"
      using unregister_appended [OF fresh, of "[later]"] by (simp add: registerShortcut_def)
    have before: "handleKeyDown toLowerCase
        (registerShortcut later (registerShortcut earlier shortcuts)) localShortcuts e
        = [handler (snd earlier)]"
      using dispatch_loop_no_match [OF none, of "earlier # later # localShortcuts"] m_earlier
      by (simp add: handleKeyDown_def registerShortcut_def)
    have after: "handleKeyDown toLowerCase (shortcuts @ [later]) localShortcuts e
        = [handler (snd later)]"
      using dispatch_loop_no_match [OF none, of "later # localShortcuts"] m_later
      by (simp add: handleKeyDown_def)
    show ?thesis
      using before after removed by simp
  qed
  show ?thesis
    using first global two by blast
qed

theorem dispatch_first_match_wins_witness:
  "\<forall>toLowerCase.
     \<not> shortcut_matches toLowerCase (snd (0::nat, \<lparr>key = ''f'', ctrl = False, shift = False, alt = False, meta = False, handler = (9::nat), description = ''Find''\<rparr>)) \<lparr>key_e = ''s'', ctrlKey = True, shiftKey = False, altKey = False, metaKey = False\<rparr>
     \<and> shortcut_matches toLowerCase (snd (1::nat, \<lparr>key = ''s'', ctrl = True, shift = False, alt = False, meta = False, handler = (1::nat), description = ''Save''\<rparr>)) \<lparr>key_e = ''s'', ctrlKey = True, shiftKey = False, altKey = False, metaKey = False\<rparr>
     \<and> handleKeyDown toLowerCase [(0::nat, \<lparr>key = ''f'', ctrl = False, shift = False, alt = False, meta = False, handler = (9::nat), description = ''Find''\<rparr>)] [(7::nat, \<lparr>key = ''s'', ctrl = True, shift = False, alt = False, meta = False, handler = (3::nat), description = ''Local save''\<rparr>)] \<lparr>key_e = ''s'', ctrlKey = True, shiftKey = False, altKey = False, metaKey = False\<rparr> = [3]
     \<and> handleKeyDown toLowerCase (registerShortcut (2::nat, \<lparr>key = ''s'', ctrl = True, shift = False, alt = False, meta = False, handler = (2::nat), description = ''Save as''\<rparr>) (registerShortcut (1::nat, \<lparr>key = ''s'', ctrl = True, shift = False, alt = False, meta = False, handler = (1::nat), description = ''Save''\<rparr>) [(0::nat, \<lparr>key = ''f'', ctrl = False, shift = False, alt = False, meta = False, handler = (9::nat), description = ''Find''\<rparr>)])) [(7::nat, \<lparr>key = ''s'', ctrl = True, shift = False, alt = False, meta = False, handler = (3::nat), description = ''Local save''\<rparr>)] \<lparr>key_e = ''s'', ctrlKey = True, shiftKey = False, altKey = False, metaKey = False\<rparr> = [1]
     \<and> handleKeyDown toLowerCase (registerShortcut (2::nat, \<lparr>key = ''s'', ctrl = True, shift = False, alt = False, meta = False, handler = (2::nat), description = ''Save as''\<rparr>) (registerShortcut (1::nat, \<lparr>key = ''s'', ctrl = True, shift = False, alt = False, meta = False, handler = (1::nat), description = ''Save''\<rparr>) [(0::nat, \<lparr>key = ''f'', ctrl = False, shift = False, alt = False, meta = False, handler = (9::nat), description = ''Find''\<rparr>)])) [] \<lparr>key_e = ''s'', ctrlKey = True, shiftKey = False, altKey = False, metaKey = False\<rparr> = [1]
     \<and> handleKeyDown toLowerCase
          (unregister (1::nat, \<lparr>key = ''s'', ctrl = True, shift = False, alt = False, meta = False, handler = (1::nat), description = ''Save''\<rparr>) (registerShortcut (2::nat, \<lparr>key = ''s'', ctrl = True, shift = False, alt = False, meta = False, handler = (2::nat), description = ''Save as''\<rparr>) (registerShortcut (1::nat, \<lparr>key = ''s'', ctrl = True, shift = False, alt = False, meta = False, handler = (1::nat), description = ''Save''\<rparr>) [(0::nat, \<lparr>key = ''f'', ctrl = False, shift = False, alt = False, meta = False, handler = (9::nat), description = ''Find''\<rparr>)]))) [(7::nat, \<lparr>key = ''s'', ctrl = True, shift = False, alt = False, meta = False, handler = (3::nat), description = ''Local save''\<rparr>)] \<lparr>key_e = ''s'', ctrlKey = True, shiftKey = False, altKey = False, metaKey = False\<rparr> = [2]"
proof
  fix toLowerCase :: "string \<Rightarrow> string"
  have no_match: "\<not> shortcut_matches toLowerCase (snd (0::nat, \<lparr>key = ''f'', ctrl = False, shift = False, alt = False, meta = False, handler = (9::nat), description = ''Find''\<rparr>)) \<lparr>key_e = ''s'', ctrlKey = True, shiftKey = False, altKey = False, metaKey = False\<rparr>"
    by (simp add: shortcut_matches_def)
  have match: "shortcut_matches toLowerCase (snd (1::nat, \<lparr>key = ''s'', ctrl = True, shift = False, alt = False, meta = False, handler = (1::nat), description = ''Save''\<rparr>)) \<lparr>key_e = ''s'', ctrlKey = True, shiftKey = False, altKey = False, metaKey = False\<rparr>"
    by (simp add: shortcut_matches_def)
  have local_match: "shortcut_matches toLowerCase (snd (7::nat, \<lparr>key = ''s'', ctrl = True, shift = False, alt = False, meta = False, handler = (3::nat), description = ''Local save''\<rparr>)) \<lparr>key_e = ''s'', ctrlKey = True, shiftKey = False, altKey = False, metaKey = False\<rparr>"
    by (simp add: shortcut_matches_def)
  have only_local: "handleKeyDown toLowerCase [(0::nat, \<lparr>key = ''f'', ctrl = False, shift = False, alt = False, meta = False, handler = (9::nat), description = ''Find''\<rparr>)] [(7::nat, \<lparr>key = ''s'', ctrl = True, shift = False, alt = False, meta = False, handler = (3::nat), description = ''Local save''\<rparr>)] \<lparr>key_e = ''s'', ctrlKey = True, shiftKey = False, altKey = False, metaKey = False\<rparr> = [3]"
    using no_match local_match
      dispatch_first_match_wins
        [where toLowerCase = toLowerCase and shortcuts = "[(0::nat, \<lparr>key = ''f'', ctrl = False, shift = False, alt = False, meta = False, handler = (9::nat), description = ''Find''\<rparr>)]" and localShortcuts = "[(7::nat, \<lparr>key = ''s'', ctrl = True, shift = False, alt = False, meta = False, handler = (3::nat), description = ''Local save''\<rparr>)]"
          and e = "\<lparr>key_e = ''s'', ctrlKey = True, shiftKey = False, altKey = False, metaKey = False\<rparr>" and earlier = "(1::nat, \<lparr>key = ''s'', ctrl = True, shift = False, alt = False, meta = False, handler = (1::nat), description = ''Save''\<rparr>)" and later = "(2::nat, \<lparr>key = ''s'', ctrl = True, shift = False, alt = False, meta = False, handler = (2::nat), description = ''Save as''\<rparr>)"]
    by simp
  have some_global: "\<exists>s \<in> set (registerShortcut (2::nat, \<lparr>key = ''s'', ctrl = True, shift = False, alt = False, meta = False, handler = (2::nat), description = ''Save as''\<rparr>) (registerShortcut (1::nat, \<lparr>key = ''s'', ctrl = True, shift = False, alt = False, meta = False, handler = (1::nat), description = ''Save''\<rparr>) [(0::nat, \<lparr>key = ''f'', ctrl = False, shift = False, alt = False, meta = False, handler = (9::nat), description = ''Find''\<rparr>)])).
      shortcut_matches toLowerCase (snd s) \<lparr>key_e = ''s'', ctrlKey = True, shiftKey = False, altKey = False, metaKey = False\<rparr>"
    using match by (simp add: registerShortcut_def)
  have global_first: "(\<exists>s \<in> set (registerShortcut (2::nat, \<lparr>key = ''s'', ctrl = True, shift = False, alt = False, meta = False, handler = (2::nat), description = ''Save as''\<rparr>) (registerShortcut (1::nat, \<lparr>key = ''s'', ctrl = True, shift = False, alt = False, meta = False, handler = (1::nat), description = ''Save''\<rparr>) [(0::nat, \<lparr>key = ''f'', ctrl = False, shift = False, alt = False, meta = False, handler = (9::nat), description = ''Find''\<rparr>)])).
        shortcut_matches toLowerCase (snd s) \<lparr>key_e = ''s'', ctrlKey = True, shiftKey = False, altKey = False, metaKey = False\<rparr>) \<longrightarrow>
      handleKeyDown toLowerCase (registerShortcut (2::nat, \<lparr>key = ''s'', ctrl = True, shift = False, alt = False, meta = False, handler = (2::nat), description = ''Save as''\<rparr>) (registerShortcut (1::nat, \<lparr>key = ''s'', ctrl = True, shift = False, alt = False, meta = False, handler = (1::nat), description = ''Save''\<rparr>) [(0::nat, \<lparr>key = ''f'', ctrl = False, shift = False, alt = False, meta = False, handler = (9::nat), description = ''Find''\<rparr>)])) [(7::nat, \<lparr>key = ''s'', ctrl = True, shift = False, alt = False, meta = False, handler = (3::nat), description = ''Local save''\<rparr>)] \<lparr>key_e = ''s'', ctrlKey = True, shiftKey = False, altKey = False, metaKey = False\<rparr>
      = handleKeyDown toLowerCase (registerShortcut (2::nat, \<lparr>key = ''s'', ctrl = True, shift = False, alt = False, meta = False, handler = (2::nat), description = ''Save as''\<rparr>) (registerShortcut (1::nat, \<lparr>key = ''s'', ctrl = True, shift = False, alt = False, meta = False, handler = (1::nat), description = ''Save''\<rparr>) [(0::nat, \<lparr>key = ''f'', ctrl = False, shift = False, alt = False, meta = False, handler = (9::nat), description = ''Find''\<rparr>)])) [] \<lparr>key_e = ''s'', ctrlKey = True, shiftKey = False, altKey = False, metaKey = False\<rparr>"
    using dispatch_first_match_wins
        [where toLowerCase = toLowerCase
          and shortcuts = "registerShortcut (2::nat, \<lparr>key = ''s'', ctrl = True, shift = False, alt = False, meta = False, handler = (2::nat), description = ''Save as''\<rparr>) (registerShortcut (1::nat, \<lparr>key = ''s'', ctrl = True, shift = False, alt = False, meta = False, handler = (1::nat), description = ''Save''\<rparr>) [(0::nat, \<lparr>key = ''f'', ctrl = False, shift = False, alt = False, meta = False, handler = (9::nat), description = ''Find''\<rparr>)])"
          and localShortcuts = "[(7::nat, \<lparr>key = ''s'', ctrl = True, shift = False, alt = False, meta = False, handler = (3::nat), description = ''Local save''\<rparr>)]" and e = "\<lparr>key_e = ''s'', ctrlKey = True, shiftKey = False, altKey = False, metaKey = False\<rparr>" and earlier = "(1::nat, \<lparr>key = ''s'', ctrl = True, shift = False, alt = False, meta = False, handler = (1::nat), description = ''Save''\<rparr>)" and later = "(2::nat, \<lparr>key = ''s'', ctrl = True, shift = False, alt = False, meta = False, handler = (2::nat), description = ''Save as''\<rparr>)"]
    by (rule conjunct2 [THEN conjunct1])
  have global_wins: "handleKeyDown toLowerCase (registerShortcut (2::nat, \<lparr>key = ''s'', ctrl = True, shift = False, alt = False, meta = False, handler = (2::nat), description = ''Save as''\<rparr>) (registerShortcut (1::nat, \<lparr>key = ''s'', ctrl = True, shift = False, alt = False, meta = False, handler = (1::nat), description = ''Save''\<rparr>) [(0::nat, \<lparr>key = ''f'', ctrl = False, shift = False, alt = False, meta = False, handler = (9::nat), description = ''Find''\<rparr>)])) [(7::nat, \<lparr>key = ''s'', ctrl = True, shift = False, alt = False, meta = False, handler = (3::nat), description = ''Local save''\<rparr>)] \<lparr>key_e = ''s'', ctrlKey = True, shiftKey = False, altKey = False, metaKey = False\<rparr>
      = handleKeyDown toLowerCase (registerShortcut (2::nat, \<lparr>key = ''s'', ctrl = True, shift = False, alt = False, meta = False, handler = (2::nat), description = ''Save as''\<rparr>) (registerShortcut (1::nat, \<lparr>key = ''s'', ctrl = True, shift = False, alt = False, meta = False, handler = (1::nat), description = ''Save''\<rparr>) [(0::nat, \<lparr>key = ''f'', ctrl = False, shift = False, alt = False, meta = False, handler = (9::nat), description = ''Find''\<rparr>)])) [] \<lparr>key_e = ''s'', ctrlKey = True, shiftKey = False, altKey = False, metaKey = False\<rparr>"
    using global_first some_global by (rule mp)
  have two: "handleKeyDown toLowerCase (registerShortcut (2::nat, \<lparr>key = ''s'', ctrl = True, shift = False, alt = False, meta = False, handler = (2::nat), description = ''Save as''\<rparr>) (registerShortcut (1::nat, \<lparr>key = ''s'', ctrl = True, shift = False, alt = False, meta = False, handler = (1::nat), description = ''Save''\<rparr>) [(0::nat, \<lparr>key = ''f'', ctrl = False, shift = False, alt = False, meta = False, handler = (9::nat), description = ''Find''\<rparr>)])) [(7::nat, \<lparr>key = ''s'', ctrl = True, shift = False, alt = False, meta = False, handler = (3::nat), description = ''Local save''\<rparr>)] \<lparr>key_e = ''s'', ctrlKey = True, shiftKey = False, altKey = False, metaKey = False\<rparr> = [1]
      \<and> handleKeyDown toLowerCase
          (unregister (1::nat, \<lparr>key = ''s'', ctrl = True, shift = False, alt = False, meta = False, handler = (1::nat), description = ''Save''\<rparr>) (registerShortcut (2::nat, \<lparr>key = ''s'', ctrl = True, shift = False, alt = False, meta = False, handler = (2::nat), description = ''Save as''\<rparr>) (registerShortcut (1::nat, \<lparr>key = ''s'', ctrl = True, shift = False, alt = False, meta = False, handler = (1::nat), description = ''Save''\<rparr>) [(0::nat, \<lparr>key = ''f'', ctrl = False, shift = False, alt = False, meta = False, handler = (9::nat), description = ''Find''\<rparr>)]))) [(7::nat, \<lparr>key = ''s'', ctrl = True, shift = False, alt = False, meta = False, handler = (3::nat), description = ''Local save''\<rparr>)] \<lparr>key_e = ''s'', ctrlKey = True, shiftKey = False, altKey = False, metaKey = False\<rparr> = [2]"
    using no_match match
      dispatch_first_match_wins
        [where toLowerCase = toLowerCase and shortcuts = "[(0::nat, \<lparr>key = ''f'', ctrl = False, shift = False, alt = False, meta = False, handler = (9::nat), description = ''Find''\<rparr>)]" and localShortcuts = "[(7::nat, \<lparr>key = ''s'', ctrl = True, shift = False, alt = False, meta = False, handler = (3::nat), description = ''Local save''\<rparr>)]"
          and e = "\<lparr>key_e = ''s'', ctrlKey = True, shiftKey = False, altKey = False, metaKey = False\<rparr>" and earlier = "(1::nat, \<lparr>key = ''s'', ctrl = True, shift = False, alt = False, meta = False, handler = (1::nat), description = ''Save''\<rparr>)" and later = "(2::nat, \<lparr>key = ''s'', ctrl = True, shift = False, alt = False, meta = False, handler = (2::nat), description = ''Save as''\<rparr>)"]
    by simp
  show "\<not> shortcut_matches toLowerCase (snd (0::nat, \<lparr>key = ''f'', ctrl = False, shift = False, alt = False, meta = False, handler = (9::nat), description = ''Find''\<rparr>)) \<lparr>key_e = ''s'', ctrlKey = True, shiftKey = False, altKey = False, metaKey = False\<rparr>
     \<and> shortcut_matches toLowerCase (snd (1::nat, \<lparr>key = ''s'', ctrl = True, shift = False, alt = False, meta = False, handler = (1::nat), description = ''Save''\<rparr>)) \<lparr>key_e = ''s'', ctrlKey = True, shiftKey = False, altKey = False, metaKey = False\<rparr>
     \<and> handleKeyDown toLowerCase [(0::nat, \<lparr>key = ''f'', ctrl = False, shift = False, alt = False, meta = False, handler = (9::nat), description = ''Find''\<rparr>)] [(7::nat, \<lparr>key = ''s'', ctrl = True, shift = False, alt = False, meta = False, handler = (3::nat), description = ''Local save''\<rparr>)] \<lparr>key_e = ''s'', ctrlKey = True, shiftKey = False, altKey = False, metaKey = False\<rparr> = [3]
     \<and> handleKeyDown toLowerCase (registerShortcut (2::nat, \<lparr>key = ''s'', ctrl = True, shift = False, alt = False, meta = False, handler = (2::nat), description = ''Save as''\<rparr>) (registerShortcut (1::nat, \<lparr>key = ''s'', ctrl = True, shift = False, alt = False, meta = False, handler = (1::nat), description = ''Save''\<rparr>) [(0::nat, \<lparr>key = ''f'', ctrl = False, shift = False, alt = False, meta = False, handler = (9::nat), description = ''Find''\<rparr>)])) [(7::nat, \<lparr>key = ''s'', ctrl = True, shift = False, alt = False, meta = False, handler = (3::nat), description = ''Local save''\<rparr>)] \<lparr>key_e = ''s'', ctrlKey = True, shiftKey = False, altKey = False, metaKey = False\<rparr> = [1]
     \<and> handleKeyDown toLowerCase (registerShortcut (2::nat, \<lparr>key = ''s'', ctrl = True, shift = False, alt = False, meta = False, handler = (2::nat), description = ''Save as''\<rparr>) (registerShortcut (1::nat, \<lparr>key = ''s'', ctrl = True, shift = False, alt = False, meta = False, handler = (1::nat), description = ''Save''\<rparr>) [(0::nat, \<lparr>key = ''f'', ctrl = False, shift = False, alt = False, meta = False, handler = (9::nat), description = ''Find''\<rparr>)])) [] \<lparr>key_e = ''s'', ctrlKey = True, shiftKey = False, altKey = False, metaKey = False\<rparr> = [1]
     \<and> handleKeyDown toLowerCase
          (unregister (1::nat, \<lparr>key = ''s'', ctrl = True, shift = False, alt = False, meta = False, handler = (1::nat), description = ''Save''\<rparr>) (registerShortcut (2::nat, \<lparr>key = ''s'', ctrl = True, shift = False, alt = False, meta = False, handler = (2::nat), description = ''Save as''\<rparr>) (registerShortcut (1::nat, \<lparr>key = ''s'', ctrl = True, shift = False, alt = False, meta = False, handler = (1::nat), description = ''Save''\<rparr>) [(0::nat, \<lparr>key = ''f'', ctrl = False, shift = False, alt = False, meta = False, handler = (9::nat), description = ''Find''\<rparr>)]))) [(7::nat, \<lparr>key = ''s'', ctrl = True, shift = False, alt = False, meta = False, handler = (3::nat), description = ''Local save''\<rparr>)] \<lparr>key_e = ''s'', ctrlKey = True, shiftKey = False, altKey = False, metaKey = False\<rparr> = [2]"
    using no_match match only_local global_wins two by simp
qed

section \<open>Properties of the highlight building\<close>

lemma build_highlights_append:
  "build_highlights doc (before @ after) = build_highlights doc before @ build_highlights doc after"
  by (induction before) (simp_all split: sum.splits)

lemma build_highlights_sound:
  "h \<in> set (build_highlights doc comments) \<Longrightarrow>
     \<exists>c \<in> set comments. \<not> resolved c \<and> comment_region doc c = Inr h"
  by (induction comments) (auto split: if_splits sum.splits)

lemma build_highlights_complete:
  "c \<in> set comments \<Longrightarrow> \<not> resolved c \<Longrightarrow> comment_region doc c = Inr h \<Longrightarrow>
     h \<in> set (build_highlights doc comments)"
  by (induction comments) (auto split: sum.splits)

lemma comment_region_clamped:
  assumes "line doc (if lines doc < line_start c then lines doc else line_start c) = Inr fromLine"
    and "line doc (if lines doc < line_end c then lines doc else line_end c) = Inr toLine"
  shows "comment_region doc c
           = Inr \<lparr>from_h = from_Line fromLine, to_h = to_Line toLine, id_h = id_Comment c\<rparr>"
proof -
  have "min (line_start c) (lines doc) = (if lines doc < line_start c then lines doc else line_start c)"
    by (simp add: min_def)
  moreover have "min (line_end c) (lines doc) = (if lines doc < line_end c then lines doc else line_end c)"
    by (simp add: min_def)
  ultimately show ?thesis
    using assms by (simp add: comment_region_def)
qed

lemma highlightField_update_nonempty_marks:
  "\<forall>h \<in> set hs. from_h h < to_h h \<Longrightarrow>
     highlightField_update hs = Inr (map (\<lambda>h. (from_h h, to_h h)) hs)"
  by (induction hs) (simp_all add: mark_range_def)

lemma highlightField_update_empty_mark:
  "highlightField_update hs = Inr ds \<Longrightarrow> h \<in> set hs \<Longrightarrow> from_h h < to_h h"
  by (induction hs arbitrary: ds) (auto simp: mark_range_def split: sum.splits if_splits)

text \<open>
  C6 fails on the code. The document is \<open>ab\<close>, \<open>cd\<close> and an empty third line (a file
  that ends in a newline), and there is one unresolved comment on lines 5 to 5. Both
  line numbers are beyond the document and are clamped to line 3, the lookups succeed,
  and the loop builds the region from 6 to 6. The region is empty, so
  \<open>highlightMark.range\<close> throws while the list is dispatched, outside every \<open>try\<close>:
  the effect ends in a \<open>RangeError\<close> instead of a set of highlights. (The loop itself
  produces regions for unresolved comments only, clamps as the claim says and
  swallows every error of a line lookup, as the lemmas of this section show; comments
  have no orphaned state in the code.)
\<close>

theorem clamped_comment_on_empty_last_line_raises:
  "build_highlights \<lparr>lines = 3,
        line = (\<lambda>n. if n = 1 then Inr \<lparr>from_Line = 0, to_Line = 2, number = 1, text_Line = ''ab''\<rparr>
                   else if n = 2 then Inr \<lparr>from_Line = 3, to_Line = 5, number = 2, text_Line = ''cd''\<rparr>
                   else if n = 3 then Inr \<lparr>from_Line = 6, to_Line = 6, number = 3, text_Line = ''''\<rparr>
                   else Inl RangeError)\<rparr> [\<lparr>id_Comment = ''c1'', project_id = ''p'', file_path = ''main.tex'', author_id = ''u'', author_name = ''U'', content_Comment = ''note'', line_start = 5, line_end = 5, resolved = False, created_at = ''2024-01-01''\<rparr>] = [\<lparr>from_h = 6, to_h = 6, id_h = ''c1''\<rparr>]
   \<and> highlights_effect (Some \<lparr>lines = 3,
        line = (\<lambda>n. if n = 1 then Inr \<lparr>from_Line = 0, to_Line = 2, number = 1, text_Line = ''ab''\<rparr>
                   else if n = 2 then Inr \<lparr>from_Line = 3, to_Line = 5, number = 2, text_Line = ''cd''\<rparr>
                   else if n = 3 then Inr \<lparr>from_Line = 6, to_Line = 6, number = 3, text_Line = ''''\<rparr>
                   else Inl RangeError)\<rparr>) [\<lparr>id_Comment = ''c1'', project_id = ''p'', file_path = ''main.tex'', author_id = ''u'', author_name = ''U'', content_Comment = ''note'', line_start = 5, line_end = 5, resolved = False, created_at = ''2024-01-01''\<rparr>] = Inl RangeError"
proof -
  have built: "build_highlights \<lparr>lines = 3,
        line = (\<lambda>n. if n = 1 then Inr \<lparr>from_Line = 0, to_Line = 2, number = 1, text_Line = ''ab''\<rparr>
                   else if n = 2 then Inr \<lparr>from_Line = 3, to_Line = 5, number = 2, text_Line = ''cd''\<rparr>
                   else if n = 3 then Inr \<lparr>from_Line = 6, to_Line = 6, number = 3, text_Line = ''''\<rparr>
                   else Inl RangeError)\<rparr> [\<lparr>id_Comment = ''c1'', project_id = ''p'', file_path = ''main.tex'', author_id = ''u'', author_name = ''U'', content_Comment = ''note'', line_start = 5, line_end = 5, resolved = False, created_at = ''2024-01-01''\<rparr>] = [\<lparr>from_h = 6, to_h = 6, id_h = ''c1''\<rparr>]"
    by (simp add: comment_region_def)
  have "highlightField_update [\<lparr>from_h = 6, to_h = 6, id_h = ''c1''\<rparr>] = Inl RangeError"
    by (simp add: mark_range_def)
  then have "highlights_effect (Some \<lparr>lines = 3,
        line = (\<lambda>n. if n = 1 then Inr \<lparr>from_Line = 0, to_Line = 2, number = 1, text_Line = ''ab''\<rparr>
                   else if n = 2 then Inr \<lparr>from_Line = 3, to_Line = 5, number = 2, text_Line = ''cd''\<rparr>
                   else if n = 3 then Inr \<lparr>from_Line = 6, to_Line = 6, number = 3, text_Line = ''''\<rparr>
                   else Inl RangeError)\<rparr>) [\<lparr>id_Comment = ''c1'', project_id = ''p'', file_path = ''main.tex'', author_id = ''u'', author_name = ''U'', content_Comment = ''note'', line_start = 5, line_end = 5, resolved = False, created_at = ''2024-01-01''\<rparr>] = Inl RangeError"
    by (simp only: highlights_effect_def built option.case sum.case)
  then show ?thesis
    using built by simp
qed

end
